theory Spec2Isabelle
  imports Main "HOL-Library.Word"
begin

unbundle bit_operations_syntax

section \<open>JavaScript values used by the code\<close>

text \<open>
  Numbers that the code computes with are integers: clock readings (\<open>Date.now()\<close>,
  milliseconds since the epoch), capability bits and document counts. They are modelled
  as \<open>int\<close>. The bitwise operators of JavaScript convert both operands to 32-bit two's
  complement and give a signed result; \<open>js_shl\<close> is \<open>a << n\<close> and \<open>js_or\<close> is \<open>a | b\<close>.
\<close>

definition js_shl :: "int \<Rightarrow> nat \<Rightarrow> int" where
  "js_shl a n = sint (push_bit (n mod 32) (word_of_int a :: 32 word))"

definition js_or :: "int \<Rightarrow> int \<Rightarrow> int" where
  "js_or a b = sint ((word_of_int a :: 32 word) OR word_of_int b)"

text \<open>
  A configured lifetime is \<open>Number(process.env.X)\<close> after the \<open>isNaN\<close> check of
  utils/configuration: a number that is an integer, or one that is not (a fraction or
  an infinity). Only the first kind has a value the rest of the code computes with.
\<close>

datatype number = Integer int | NonInteger

text \<open>
  \<open>new Date(ms)\<close>: a time value within the range of ECMAScript dates
  (8.64e15 milliseconds either side of the epoch), or an invalid date.
\<close>

datatype Date = Date int | InvalidDate

definition new_Date :: "int \<Rightarrow> Date" where
  "new_Date ms = (if \<bar>ms\<bar> \<le> 8640000000000000 then Date ms else InvalidDate)"

section \<open>Permission model (types/permissions.ts, utils/calculatePermissions)\<close>

definition DEFAULT :: int where
  "DEFAULT = js_shl 1 0"

definition MANAGE_BLOG :: int where
  "MANAGE_BLOG = js_shl 1 1"

definition MANAGE_USERS :: int where
  "MANAGE_USERS = js_shl 1 2"

datatype RoleNames = USER | MODERATOR | ADMIN

fun rolePermissions :: "RoleNames \<Rightarrow> int list" where
  "rolePermissions USER = [DEFAULT]"
| "rolePermissions MODERATOR = [DEFAULT, MANAGE_BLOG]"
| "rolePermissions ADMIN = [DEFAULT, MANAGE_BLOG, MANAGE_USERS]"

text \<open>\<open>Array.prototype.reduce\<close> with an initial value is a left fold.\<close>

definition calculatePermissions :: "RoleNames \<Rightarrow> int" where
  "calculatePermissions r = foldl (\<lambda>acc perm. js_or acc perm) 0 (rolePermissions r)"

section \<open>Errors and handler outcomes\<close>

text \<open>
  BadRequestError and ServerFailedError construct a BaseError with status 400 and 500.
  A handler ends by passing an error to \<open>next\<close>, by sending a JSON body with a status,
  or, where an awaited promise rejects outside any \<open>try\<close>, with no response at all.
\<close>

datatype BaseError = BaseError (err_message: string) (statusCode: nat)

definition BadRequestError :: "string \<Rightarrow> BaseError" where
  "BadRequestError msg = BaseError msg 400"

definition ServerFailedError :: "string \<Rightarrow> BaseError" where
  "ServerFailedError msg = BaseError msg 500"

datatype 'a outcome = Next BaseError | Json nat 'a | Unhandled

section \<open>Credential codec (utils/jsonwebtoken.ts)\<close>

record IPayload =
  id' :: string
  full_name :: string
  role :: RoleNames
  permissions :: int

text \<open>
  What \<open>jwt.verify\<close> decodes: the signed payload with the two claims that \<open>jwt.sign\<close>
  added, both in seconds since the epoch.
\<close>

record JwtPayload = IPayload +
  iat :: int
  exp :: int

text \<open>
  The jsonwebtoken library is a collaborator outside the repository. Its HS256 tokens
  are modelled symbolically: a token string is either the signature of some claims
  under some secret, and then it verifies under exactly that secret, or any other
  string (\<open>Raw\<close>, with \<open>Raw []\<close> the empty string). Signing is deterministic: the same
  claims under the same secret are the same string.

  \<open>jwt.sign(payload, secret, {expiresIn})\<close> throws for an empty secret and for an
  \<open>expiresIn\<close> that is not an integer; otherwise it stamps \<open>iat = floor(now / 1000)\<close>
  and \<open>exp = iat + expiresIn\<close>, a numeric \<open>expiresIn\<close> counting seconds.
  \<open>jwt.verify(token, secret)\<close> throws for a malformed token, for a signature that does
  not match and when \<open>floor(now / 1000) \<ge> exp\<close>. A throw is \<open>None\<close>.
\<close>

datatype token = Signed JwtPayload string | Raw string

definition jwt_sign :: "IPayload \<Rightarrow> string \<Rightarrow> number \<Rightarrow> int \<Rightarrow> token option" where
  "jwt_sign payload secret expiresIn now =
     (if secret = [] then None
      else case expiresIn of
        NonInteger \<Rightarrow> None
      | Integer n \<Rightarrow>
          Some (Signed (IPayload.extend payload
                  \<lparr>iat = now div 1000, exp = now div 1000 + n\<rparr>) secret))"

definition jwt_verify :: "token \<Rightarrow> string \<Rightarrow> int \<Rightarrow> JwtPayload option" where
  "jwt_verify t secret now =
     (if secret = [] then None
      else case t of
        Raw s \<Rightarrow> None
      | Signed claims k \<Rightarrow>
          if k \<noteq> secret then None
          else if now div 1000 \<ge> exp claims then None
          else Some claims)"

record configuration =
  SECRET_KEY :: string
  EXPIRES_IN :: number
  REFRESH_TOKEN_SECRET_KEY :: string
  REFRESH_TOKEN_EXPIRES_IN :: number

record ITokenResult =
  accessToken :: token
  expiresIn :: number

record IRefreshTokenResult =
  refreshToken :: token

text \<open>The \<open>catch\<close> of each function turns a throw of the library into \<open>null\<close>.\<close>

definition generateAccessToken :: "configuration \<Rightarrow> int \<Rightarrow> IPayload \<Rightarrow> ITokenResult option" where
  "generateAccessToken cfg now payload =
     (case jwt_sign payload (SECRET_KEY cfg) (EXPIRES_IN cfg) now of
        Some t \<Rightarrow> Some \<lparr>accessToken = t, expiresIn = EXPIRES_IN cfg\<rparr>
      | None \<Rightarrow> None)"

definition generateRefreshToken ::
  "configuration \<Rightarrow> int \<Rightarrow> IPayload \<Rightarrow> IRefreshTokenResult option" where
  "generateRefreshToken cfg now payload =
     (case jwt_sign payload (REFRESH_TOKEN_SECRET_KEY cfg) (REFRESH_TOKEN_EXPIRES_IN cfg) now of
        Some t \<Rightarrow> Some \<lparr>refreshToken = t\<rparr>
      | None \<Rightarrow> None)"

definition verifyToken :: "int \<Rightarrow> token \<Rightarrow> string \<Rightarrow> JwtPayload option" where
  "verifyToken now t secret_key = jwt_verify t secret_key now"

definition verifyAccessToken :: "configuration \<Rightarrow> int \<Rightarrow> token \<Rightarrow> JwtPayload option" where
  "verifyAccessToken cfg now t = verifyToken now t (SECRET_KEY cfg)"

definition verifyRefreshToken :: "configuration \<Rightarrow> int \<Rightarrow> token \<Rightarrow> JwtPayload option" where
  "verifyRefreshToken cfg now t = verifyToken now t (REFRESH_TOKEN_SECRET_KEY cfg)"

section \<open>Refresh session store (database/models/RefreshTokenModel.ts)\<close>

record IRefreshToken =
  userId :: string
  refreshToken :: token
  expiresAt :: Date
  userAgent :: string

record IRefreshTokenDocument = IRefreshToken +
  createdAt :: int

text \<open>
  A user document, with the fields that login reads. \<open>id\<close> is the string form of
  \<open>_id\<close>, and the query layer casts it back: both are the one value \<open>id'\<close>.
\<close>

record IUser =
  id' :: string
  email :: string
  password :: string
  full_name :: string
  role :: RoleNames
  permissions :: int

text \<open>
  The database is a collaborator outside the repository. Its state is the two
  collections and, since any call of the driver may reject (a lost connection), the
  outcomes of the calls still to come: \<open>True\<close> for a call that rejects, and no fault
  once the list is used up.
\<close>

record db =
  users :: "IUser list"
  docs :: "IRefreshTokenDocument list"
  faults :: "bool list"

datatype mongo_error = NetworkError | ValidationError | DuplicateKey

definition driver_call :: "db \<Rightarrow> bool \<times> db" where
  "driver_call s = (case faults s of [] \<Rightarrow> (False, s) | f # fs \<Rightarrow> (f, s\<lparr>faults := fs\<rparr>))"

text \<open>\<open>RefreshTokenModel.deleteMany({$or: [{userId}, {userAgent}]})\<close>, resolving to the count.\<close>

definition deleteMany_or :: "string \<Rightarrow> string \<Rightarrow> db \<Rightarrow> (mongo_error + nat) \<times> db" where
  "deleteMany_or uid ua s =
     (let (f, s1) = driver_call s in
      if f then (Inl NetworkError, s1)
      else (Inr (length (filter (\<lambda>d. userId d = uid \<or> userAgent d = ua) (docs s1))),
            s1\<lparr>docs := filter (\<lambda>d. \<not> (userId d = uid \<or> userAgent d = ua)) (docs s1)\<rparr>))"

text \<open>
  The schema of a refresh record: \<open>refreshToken\<close>, \<open>userAgent\<close> and \<open>expiresAt\<close> are
  required (an empty string and an invalid date fail validation), \<open>userAgent\<close> is
  \<open>unique\<close>, and \<open>createdAt\<close> defaults to the clock. \<open>save\<close> validates, then inserts;
  the unique index on \<open>userAgent\<close> rejects a second record with a stored value.
\<close>

definition validate :: "IRefreshToken \<Rightarrow> bool" where
  "validate r \<longleftrightarrow> refreshToken r \<noteq> Raw [] \<and> userAgent r \<noteq> [] \<and> expiresAt r \<noteq> InvalidDate"

definition save :: "IRefreshToken \<Rightarrow> int \<Rightarrow> db \<Rightarrow> (mongo_error + IRefreshTokenDocument) \<times> db" where
  "save r now s =
     (if \<not> validate r then (Inl ValidationError, s)
      else let (f, s1) = driver_call s in
        if f then (Inl NetworkError, s1)
        else if userAgent r \<in> set (map userAgent (docs s1)) then (Inl DuplicateKey, s1)
        else let d = IRefreshToken.extend r \<lparr>createdAt = now\<rparr>
             in (Inr d, s1\<lparr>docs := docs s1 @ [d]\<rparr>))"

text \<open>\<open>RefreshTokenModel.findOne({refreshToken, userAgent})\<close>: the first match, or null.\<close>

definition findOne ::
  "token \<Rightarrow> string \<Rightarrow> db \<Rightarrow> (mongo_error + IRefreshTokenDocument option) \<times> db" where
  "findOne t ua s =
     (let (f, s1) = driver_call s in
      if f then (Inl NetworkError, s1)
      else (Inr (find (\<lambda>d. refreshToken d = t \<and> userAgent d = ua) (docs s1)), s1))"

text \<open>
  The index \<open>{expiresAt: 1}\<close> with \<open>expireAfterSeconds: 0\<close>: the database removes, in a
  pass of its own that runs from time to time, the documents whose \<open>expiresAt\<close> has
  passed. No handler of the repository runs it.
\<close>

definition expired :: "int \<Rightarrow> IRefreshTokenDocument \<Rightarrow> bool" where
  "expired now d = (case expiresAt d of Date ms \<Rightarrow> ms < now | InvalidDate \<Rightarrow> False)"

definition ttl_pass :: "int \<Rightarrow> db \<Rightarrow> db" where
  "ttl_pass now s = s\<lparr>docs := filter (\<lambda>d. \<not> expired now d) (docs s)\<rparr>"

section \<open>Controllers\<close>

definition revokeUserRefreshTokensByUserAgent :: "string \<Rightarrow> string \<Rightarrow> db \<Rightarrow> bool \<times> db" where
  "revokeUserRefreshTokensByUserAgent uid ua s =
     (case deleteMany_or uid ua s of
        (Inr deletedCount, s1) \<Rightarrow> (deletedCount > 0, s1)
      | (Inl err, s1) \<Rightarrow> (False, s1))"

definition createRefreshToken ::
  "IRefreshToken \<Rightarrow> int \<Rightarrow> db \<Rightarrow> IRefreshTokenDocument option \<times> db" where
  "createRefreshToken r now s =
     (case save r now s of
        (Inr newRefreshToken, s1) \<Rightarrow> (Some newRefreshToken, s1)
      | (Inl err, s1) \<Rightarrow> (None, s1))"

definition findRefreshToken ::
  "token \<Rightarrow> string \<Rightarrow> db \<Rightarrow> IRefreshTokenDocument option \<times> db" where
  "findRefreshToken t ua s =
     (case findOne t ua s of
        (Inr found, s1) \<Rightarrow> (found, s1)
      | (Inl err, s1) \<Rightarrow> (None, s1))"

text \<open>UserController.findByUserEmail has no \<open>try\<close>: a rejection reaches its caller.\<close>

definition findByUserEmail :: "string \<Rightarrow> db \<Rightarrow> (mongo_error + IUser option) \<times> db" where
  "findByUserEmail e s =
     (let (f, s1) = driver_call s in
      if f then (Inl NetworkError, s1)
      else (Inr (find (\<lambda>u. email u = e) (users s1)), s1))"

section \<open>Session issuance (routes/auth/login.ts, routes/auth/refresh-token.ts)\<close>

text \<open>
  A request carries strings; a field or header that is absent and one that is empty
  are both falsy and the handlers treat them alike, so absence is the empty string
  (\<open>Raw []\<close> for a token). \<open>user\<close> is what the authentication middleware attached.
  All clock readings within one request are the one instant \<open>now\<close>.
\<close>

record LoginRequest =
  body_email :: string
  body_password :: string
  header_user_agent :: string

record RefreshRequest =
  body_refresh_token :: token
  refresh_user_agent :: string
  user :: IPayload

record RefreshTokenResponse =
  message :: string
  status :: string
  access_token :: token
  expires_in :: number

record ITokenResponse = RefreshTokenResponse +
  refresh_token :: token

text \<open>
  \<open>comparePassword\<close> (utils/password) is not among the sources; login takes it as a
  parameter. The handler awaits the revocation and the creation and uses neither
  result. Where \<open>expiresAt\<close> is computed the lifetime is an integer, since
  generateRefreshToken has returned null for any other; the other branch only makes
  the definition total.
\<close>

definition login ::
  "configuration \<Rightarrow> (string \<Rightarrow> string \<Rightarrow> bool) \<Rightarrow> int \<Rightarrow> LoginRequest \<Rightarrow> db
     \<Rightarrow> ITokenResponse outcome \<times> db" where
  "login cfg comparePassword now req s =
     (if body_email req = [] \<or> body_password req = []
      then (Next (BadRequestError ''Email and password are required fields.''), s)
      else case findByUserEmail (body_email req) s of
        (Inl err, s1) \<Rightarrow> (Unhandled, s1)
      | (Inr None, s1) \<Rightarrow> (Next (BadRequestError ''The user is not registered.''), s1)
      | (Inr (Some existingUser), s1) \<Rightarrow>
          if \<not> comparePassword (body_password req) (password existingUser)
          then (Next (BadRequestError ''Password is incorrect.''), s1)
          else
            let payload = \<lparr>IPayload.id' = IUser.id' existingUser,
                           full_name = IUser.full_name existingUser,
                           role = IUser.role existingUser,
                           permissions = IUser.permissions existingUser\<rparr>
            in (case generateAccessToken cfg now payload of
              None \<Rightarrow> (Next (ServerFailedError ''Failed to generate access token.''), s1)
            | Some accessTokenResult \<Rightarrow>
               (case generateRefreshToken cfg now payload of
                  None \<Rightarrow> (Next (ServerFailedError ''Failed to generate refresh token.''), s1)
                | Some refreshTokenResult \<Rightarrow>
                    if header_user_agent req = []
                    then (Next (BadRequestError ''User-Agent header is missing''), s1)
                    else
                      let (revoked, s2) = revokeUserRefreshTokensByUserAgent
                             (IUser.id' existingUser) (header_user_agent req) s1;
                          (created, s3) = createRefreshToken
                             \<lparr>userId = IUser.id' existingUser,
                              refreshToken = IRefreshTokenResult.refreshToken refreshTokenResult,
                              expiresAt =
                                (case REFRESH_TOKEN_EXPIRES_IN cfg of
                                   Integer n \<Rightarrow> new_Date (now + n)
                                 | NonInteger \<Rightarrow> InvalidDate),
                              userAgent = header_user_agent req\<rparr> now s2
                      in (Json 201
                            \<lparr>message = ''Login successful'',
                             status = ''success'',
                             access_token = accessToken accessTokenResult,
                             expires_in = expiresIn accessTokenResult,
                             refresh_token = IRefreshTokenResult.refreshToken refreshTokenResult\<rparr>,
                          s3))))"

definition refreshToken_route ::
  "configuration \<Rightarrow> int \<Rightarrow> RefreshRequest \<Rightarrow> db \<Rightarrow> RefreshTokenResponse outcome \<times> db" where
  "refreshToken_route cfg now req s =
     (if body_refresh_token req = Raw []
      then (Next (BadRequestError ''refresh_token required field.''), s)
      else case verifyRefreshToken cfg now (body_refresh_token req) of
        None \<Rightarrow> (Next (BadRequestError ''Invalid refresh token.''), s)
      | Some verifiedToken \<Rightarrow>
          if refresh_user_agent req = []
          then (Next (BadRequestError ''user agent missing''), s)
          else (case findRefreshToken (body_refresh_token req) (refresh_user_agent req) s of
            (None, s1) \<Rightarrow> (Next (BadRequestError ''Invalid refresh token.''), s1)
          | (Some foundToken, s1) \<Rightarrow>
             (case generateAccessToken cfg now
                     \<lparr>IPayload.id' = IPayload.id' (user req),
                      full_name = IPayload.full_name (user req),
                      role = IPayload.role (user req),
                      permissions = IPayload.permissions (user req)\<rparr> of
                None \<Rightarrow> (Next (ServerFailedError ''Failed to generate token.''), s1)
              | Some accessTokenResult \<Rightarrow>
                  (Json 201
                     \<lparr>message = ''Created a access token'',
                      status = ''success'',
                      access_token = accessToken accessTokenResult,
                      expires_in = expiresIn accessTokenResult\<rparr>,
                   s1))))"

section \<open>Histories of the store\<close>

text \<open>
  What can happen to the database between its creation and any later moment: the two
  handlers run, the database makes a pass over its expiry index, and the environment
  decides which of the coming driver calls reject and what the user collection holds
  (registration and administration are outside these sources).
\<close>

datatype event =
    Login LoginRequest int
  | Refresh RefreshRequest int
  | TtlPass int
  | Faults "bool list"
  | Users "IUser list"

fun step :: "configuration \<Rightarrow> (string \<Rightarrow> string \<Rightarrow> bool) \<Rightarrow> db \<Rightarrow> event \<Rightarrow> db" where
  "step cfg comparePassword s (Login req now) = snd (login cfg comparePassword now req s)"
| "step cfg comparePassword s (Refresh req now) = snd (refreshToken_route cfg now req s)"
| "step cfg comparePassword s (TtlPass now) = ttl_pass now s"
| "step cfg comparePassword s (Faults fs) = s\<lparr>faults := fs\<rparr>"
| "step cfg comparePassword s (Users us) = s\<lparr>users := us\<rparr>"

definition run ::
  "configuration \<Rightarrow> (string \<Rightarrow> string \<Rightarrow> bool) \<Rightarrow> event list \<Rightarrow> db \<Rightarrow> db" where
  "run cfg comparePassword evs s = foldl (step cfg comparePassword) s evs"

definition ua_unique :: "db \<Rightarrow> bool" where
  "ua_unique s = distinct (map userAgent (docs s))"

section \<open>Example data\<close>

text \<open>
  A configuration with a quarter-hour access lifetime and a week's refresh lifetime, a
  registered administrator whose \<open>permissions\<close> field still has the schema's default,
  that user's login from the client \<open>Jest\<close>, and password comparison by equality.
\<close>

definition example_configuration :: configuration where
  "example_configuration =
     \<lparr>SECRET_KEY = ''access-secret'', EXPIRES_IN = Integer 900,
      REFRESH_TOKEN_SECRET_KEY = ''refresh-secret'', REFRESH_TOKEN_EXPIRES_IN = Integer 604800\<rparr>"

definition example_user :: IUser where
  "example_user =
     \<lparr>IUser.id' = ''66f0'', email = ''testuser@gmail.com'', password = ''testuser123?'',
      full_name = ''Test User'', role = ADMIN, permissions = 1\<rparr>"

definition example_principal :: IPayload where
  "example_principal =
     \<lparr>IPayload.id' = ''66f0'', full_name = ''Test User'', role = ADMIN, permissions = 1\<rparr>"

definition example_login :: LoginRequest where
  "example_login =
     \<lparr>body_email = ''testuser@gmail.com'', body_password = ''testuser123?'',
      header_user_agent = ''Jest''\<rparr>"

definition example_db :: "bool list \<Rightarrow> db" where
  "example_db fs = \<lparr>users = [example_user], docs = [], faults = fs\<rparr>"

definition example_record :: "string \<Rightarrow> string \<Rightarrow> string \<Rightarrow> int \<Rightarrow> IRefreshToken" where
  "example_record uid tok ua ms =
     \<lparr>userId = uid, refreshToken = Raw tok, expiresAt = Date ms, userAgent = ua\<rparr>"

text \<open>
  Two stores made by createRefreshToken alone: one session of the example user from
  \<open>Jest\<close>; and a session of another user from \<open>Jest\<close> beside a session of the
  example user from \<open>Other\<close>.
\<close>

definition one_session :: db where
  "one_session =
     snd (createRefreshToken (example_record ''66f0'' ''t1'' ''Jest'' 900000) 0 (example_db []))"

definition two_sessions :: db where
  "two_sessions =
     snd (createRefreshToken (example_record ''66f0'' ''t1'' ''Other'' 900000) 0
       (snd (createRefreshToken (example_record ''77a1'' ''t2'' ''Jest'' 900000) 0
          (example_db []))))"

section \<open>Theorems\<close>

text \<open>
  Claim C9. For every role name of the enumeration (user, moderator, admin) the
  bitfield that calculatePermissions computes has the baseline capability, bit 0, set;
  said with the code's own constant, or-ing DEFAULT into it changes nothing.
\<close>

theorem calculatePermissions_has_DEFAULT:
  "bit (calculatePermissions r) 0 \<and> js_or (calculatePermissions r) DEFAULT = calculatePermissions r"
  by (cases r)
     (simp_all add: calculatePermissions_def DEFAULT_def MANAGE_BLOG_def MANAGE_USERS_def
        js_or_def js_shl_def)

text \<open>
  Claim C7. For every principal \<open>p\<close>, under a configuration that can issue (a secret
  that is not empty, an integer lifetime \<open>e\<close>), issuing an access token at \<open>now\<close>
  succeeds, and verifying that token against the access secret at any time \<open>now'\<close>
  returns the claims of \<open>p\<close> while \<open>now'\<close>, in whole seconds, is before the expiry
  \<open>floor(now / 1000) + e\<close>, and the invalid outcome from the expiry on. What verification
  returns is \<open>p\<close> with the stamps \<open>iat\<close> and \<open>exp\<close> beside it; read at the type IPayload
  that verifyToken casts it to, it is \<open>p\<close>.
\<close>

theorem verifyAccessToken_roundtrip:
  assumes "SECRET_KEY cfg \<noteq> []" and "EXPIRES_IN cfg = Integer e"
  shows "\<exists>r. generateAccessToken cfg now p = Some r \<and>
           (\<forall>now'. verifyAccessToken cfg now' (accessToken r) =
              (if now' div 1000 < now div 1000 + e
               then Some (IPayload.extend p \<lparr>iat = now div 1000, exp = now div 1000 + e\<rparr>)
               else None)) \<and>
           (\<forall>now' d. verifyAccessToken cfg now' (accessToken r) = Some d \<longrightarrow>
              IPayload.truncate d = p)"
  using assms
  by (simp add: generateAccessToken_def verifyAccessToken_def verifyToken_def jwt_sign_def
        jwt_verify_def IPayload.extend_def IPayload.truncate_def)

theorem verifyAccessToken_roundtrip_witness:
  "\<exists>r. generateAccessToken example_configuration 1000 example_principal = Some r \<and>
     map_option IPayload.truncate (verifyAccessToken example_configuration 900999 (accessToken r))
       = Some example_principal \<and>
     verifyAccessToken example_configuration 901000 (accessToken r) = None"
proof -
  have k: "SECRET_KEY example_configuration \<noteq> []"
    and e: "EXPIRES_IN example_configuration = Integer 900"
    by (simp_all add: example_configuration_def)
  from verifyAccessToken_roundtrip [OF k e, of 1000 example_principal]
  obtain r where g: "generateAccessToken example_configuration 1000 example_principal = Some r"
    and v: "\<And>now'. verifyAccessToken example_configuration now' (accessToken r) =
              (if now' div 1000 < 1000 div 1000 + 900
               then Some (IPayload.extend example_principal
                            \<lparr>iat = 1000 div 1000, exp = 1000 div 1000 + 900\<rparr>)
               else None)"
    by blast
  show ?thesis
    using g v [of 900999] v [of 901000]
    by (simp add: IPayload.extend_def IPayload.truncate_def)
qed

text \<open>
  Claim C8. When the two configured secrets differ, for every principal a token issued
  with the access secret fails verifyRefreshToken and a token issued with the refresh
  secret fails verifyAccessToken, at whatever time they are verified.
\<close>

theorem secret_isolation:
  assumes "SECRET_KEY cfg \<noteq> REFRESH_TOKEN_SECRET_KEY cfg"
  shows "(generateAccessToken cfg now p = Some a \<longrightarrow>
            verifyRefreshToken cfg now' (accessToken a) = None) \<and>
         (generateRefreshToken cfg now p = Some r \<longrightarrow>
            verifyAccessToken cfg now' (IRefreshTokenResult.refreshToken r) = None)"
  using assms
  by (auto simp: generateAccessToken_def generateRefreshToken_def verifyAccessToken_def
        verifyRefreshToken_def verifyToken_def jwt_sign_def jwt_verify_def
      split: if_splits number.splits)

theorem secret_isolation_witness:
  "\<exists>a r. generateAccessToken example_configuration 1000 example_principal = Some a \<and>
         generateRefreshToken example_configuration 1000 example_principal = Some r \<and>
         verifyRefreshToken example_configuration 2000 (accessToken a) = None \<and>
         verifyAccessToken example_configuration 2000 (IRefreshTokenResult.refreshToken r) = None"
proof -
  have d: "SECRET_KEY example_configuration \<noteq> REFRESH_TOKEN_SECRET_KEY example_configuration"
    by (simp add: example_configuration_def)
  obtain a where a: "generateAccessToken example_configuration 1000 example_principal = Some a"
    by (simp add: generateAccessToken_def jwt_sign_def example_configuration_def)
  obtain r where r: "generateRefreshToken example_configuration 1000 example_principal = Some r"
    by (simp add: generateRefreshToken_def jwt_sign_def example_configuration_def)
  from secret_isolation [OF d, of 1000 example_principal a 2000 r] a r
  show ?thesis by simp
qed

subsection \<open>What each operation does to the collections\<close>

lemma driver_call_docs: "driver_call s = (f, s1) \<Longrightarrow> docs s1 = docs s \<and> users s1 = users s"
  by (auto simp: driver_call_def split: list.splits)

lemma driver_call_no_fault:
  "True \<notin> set (faults s) \<Longrightarrow> driver_call s = (f, s1) \<Longrightarrow> \<not> f \<and> True \<notin> set (faults s1)"
  by (auto simp: driver_call_def split: list.splits)

lemma revoke_docs:
  "revokeUserRefreshTokensByUserAgent uid ua s = (b, s1) \<Longrightarrow>
   users s1 = users s \<and>
   (docs s1 = docs s \<or> docs s1 = filter (\<lambda>d. \<not> (userId d = uid \<or> userAgent d = ua)) (docs s))"
  by (auto simp: revokeUserRefreshTokensByUserAgent_def deleteMany_or_def Let_def
      split: prod.splits sum.splits if_splits dest: driver_call_docs)

lemma create_docs:
  "createRefreshToken r now s = (res, s1) \<Longrightarrow>
   users s1 = users s \<and>
   (docs s1 = docs s \<or>
    (userAgent r \<notin> set (map userAgent (docs s)) \<and> validate r \<and>
     docs s1 = docs s @ [IRefreshToken.extend r \<lparr>createdAt = now\<rparr>]))"
  by (auto simp: createRefreshToken_def save_def Let_def
      split: prod.splits sum.splits if_splits dest: driver_call_docs)

lemma find_docs:
  "findRefreshToken t ua s = (res, s1) \<Longrightarrow> users s1 = users s \<and> docs s1 = docs s"
  by (auto simp: findRefreshToken_def findOne_def Let_def
      split: prod.splits sum.splits if_splits dest: driver_call_docs)

lemma findByUserEmail_docs:
  "findByUserEmail e s = (res, s1) \<Longrightarrow> users s1 = users s \<and> docs s1 = docs s"
  by (auto simp: findByUserEmail_def Let_def
      split: prod.splits sum.splits if_splits dest: driver_call_docs)

lemma userAgent_extend: "userAgent (IRefreshToken.extend r m) = userAgent r"
  by (simp add: IRefreshToken.extend_def)

lemma revoke_ua_unique:
  "revokeUserRefreshTokensByUserAgent uid ua s = (b, s1) \<Longrightarrow> ua_unique s \<Longrightarrow> ua_unique s1"
  by (auto simp: ua_unique_def distinct_map_filter dest!: revoke_docs)

lemma create_ua_unique:
  "createRefreshToken r now s = (res, s1) \<Longrightarrow> ua_unique s \<Longrightarrow> ua_unique s1"
  by (auto simp: ua_unique_def userAgent_extend dest!: create_docs)

lemma find_ua_unique:
  "findRefreshToken t ua s = (res, s1) \<Longrightarrow> ua_unique s \<Longrightarrow> ua_unique s1"
  by (auto simp: ua_unique_def dest!: find_docs)

lemma findByUserEmail_ua_unique:
  "findByUserEmail e s = (res, s1) \<Longrightarrow> ua_unique s \<Longrightarrow> ua_unique s1"
  by (auto simp: ua_unique_def dest!: findByUserEmail_docs)

lemma ttl_pass_ua_unique: "ua_unique s \<Longrightarrow> ua_unique (ttl_pass now s)"
  by (simp add: ua_unique_def ttl_pass_def distinct_map_filter)

lemma login_ua_unique:
  "login cfg cmp now req s = (res, s1) \<Longrightarrow> ua_unique s \<Longrightarrow> ua_unique s1"
  unfolding login_def Let_def
  by (auto split: prod.splits sum.splits option.splits if_splits
      dest: findByUserEmail_ua_unique revoke_ua_unique create_ua_unique)

lemma refreshToken_route_ua_unique:
  "refreshToken_route cfg now req s = (res, s1) \<Longrightarrow> ua_unique s \<Longrightarrow> ua_unique s1"
  unfolding refreshToken_route_def Let_def
  by (auto split: prod.splits sum.splits option.splits if_splits
      dest: find_ua_unique)

lemma step_ua_unique: "ua_unique s \<Longrightarrow> ua_unique (step cfg cmp s ev)"
proof (cases ev)
  case (Login req now)
  then show "ua_unique s \<Longrightarrow> ?thesis"
    using login_ua_unique [of cfg cmp now req s] by (cases "login cfg cmp now req s") simp
next
  case (Refresh req now)
  then show "ua_unique s \<Longrightarrow> ?thesis"
    using refreshToken_route_ua_unique [of cfg now req s]
    by (cases "refreshToken_route cfg now req s") simp
next
  case (TtlPass now)
  then show "ua_unique s \<Longrightarrow> ?thesis" by (simp add: ttl_pass_ua_unique)
next
  case (Faults fs)
  then show "ua_unique s \<Longrightarrow> ?thesis" by (simp add: ua_unique_def)
next
  case (Users us)
  then show "ua_unique s \<Longrightarrow> ?thesis" by (simp add: ua_unique_def)
qed

lemma run_ua_unique: "ua_unique s \<Longrightarrow> ua_unique (run cfg cmp evs s)"
  unfolding run_def
  by (induction evs arbitrary: s) (simp_all add: step_ua_unique)

text \<open>
  Claim C10. The schema makes \<open>userAgent\<close> alone unique, so the store never holds two
  refresh records with the same client context, whoever owns them: in every database
  that a history of logins, refreshes, expiry passes and changes of the environment
  leads to from an empty collection, the \<open>userAgent\<close> values of the stored records are
  pairwise distinct, and creating a record whose \<open>userAgent\<close> is already stored, under
  the same user or another, yields null and stores nothing. Since the user does not
  enter, this is stronger than one record for each pair of user and client context.
\<close>

theorem userAgent_unique_across_users:
  "distinct (map userAgent (docs (run cfg cmp evs \<lparr>users = us, docs = [], faults = fs\<rparr>))) \<and>
   (\<forall>s r now. userAgent r \<in> set (map userAgent (docs s)) \<longrightarrow>
      fst (createRefreshToken r now s) = None \<and> docs (snd (createRefreshToken r now s)) = docs s)"
proof
  have "ua_unique \<lparr>users = us, docs = [], faults = fs\<rparr>"
    by (simp add: ua_unique_def)
  then have "ua_unique (run cfg cmp evs \<lparr>users = us, docs = [], faults = fs\<rparr>)"
    by (rule run_ua_unique)
  then show "distinct (map userAgent (docs (run cfg cmp evs \<lparr>users = us, docs = [], faults = fs\<rparr>)))"
    by (simp add: ua_unique_def)
next
  show "\<forall>s r now. userAgent r \<in> set (map userAgent (docs s)) \<longrightarrow>
      fst (createRefreshToken r now s) = None \<and> docs (snd (createRefreshToken r now s)) = docs s"
    by (auto simp: createRefreshToken_def save_def Let_def
        split: prod.splits sum.splits if_splits dest: driver_call_docs)
qed

theorem userAgent_unique_across_users_witness:
  "distinct (map userAgent (docs (run example_configuration (=)
            [Login example_login 1000, TtlPass 2000,
             Login example_login 5000] (example_db [])))) \<and>
   fst (createRefreshToken (example_record ''another-user'' ''t'' ''Jest'' 9000) 6000
          (run example_configuration (=) [Login example_login 1000] (example_db []))) = None"
proof -
  have m: "userAgent (example_record ''another-user'' ''t'' ''Jest'' 9000)
        \<in> set (map userAgent (docs (run example_configuration (=) [Login example_login 1000] (example_db []))))"
    by code_simp
  show ?thesis
    using userAgent_unique_across_users [of example_configuration "(=)"
        "[Login example_login 1000, TtlPass 2000, Login example_login 5000]" "[example_user]" "[]"] m
    by (simp add: example_db_def)
qed

text \<open>
  Claim C3, as stated: the lookup returns a record only when it matches the token string
  and the client context exactly and its expiry has not passed. The second half fails:
  findRefreshToken has no clock and its query names no expiry, so a record that was
  created with expiry 1000 and that no expiry pass has removed is returned whenever it
  is asked for, also at time 5000.
\<close>

theorem findRefreshToken_returns_expired_record:
  "fst (findRefreshToken (Raw ''t1'') ''Jest''
          (snd (createRefreshToken (example_record ''66f0'' ''t1'' ''Jest'' 1000) 0 (example_db []))))
     = Some (IRefreshToken.extend (example_record ''66f0'' ''t1'' ''Jest'' 1000) \<lparr>createdAt = 0\<rparr>) \<and>
   expired 5000 (IRefreshToken.extend (example_record ''66f0'' ''t1'' ''Jest'' 1000) \<lparr>createdAt = 0\<rparr>)"
  by code_simp

text \<open>
  Claim C3, amended. findRefreshToken returns a record only when that record is stored
  and matches the token string and the client context exactly. It does not compare the
  expiry with the clock: a record whose expiry has passed becomes absent through the
  database's expiry pass, and after a pass at time \<open>now\<close> the lookup returns no record
  that had expired by then.
\<close>

theorem findRefreshToken_matches_and_expiry_by_ttl_pass:
  "(fst (findRefreshToken t ua s) = Some d \<longrightarrow>
      d \<in> set (docs s) \<and> IRefreshToken.refreshToken d = t \<and> userAgent d = ua) \<and>
   (fst (findRefreshToken t ua (ttl_pass now s)) = Some d \<longrightarrow> \<not> expired now d)"
proof -
  have a: "d \<in> set (docs s') \<and> IRefreshToken.refreshToken d = t \<and> userAgent d = ua"
    if "fst (findRefreshToken t ua s') = Some d" for s'
    using that
    by (auto simp: findRefreshToken_def findOne_def Let_def find_Some_iff
        split: prod.splits sum.splits if_splits dest: driver_call_docs)
  show ?thesis
  proof (intro conjI impI)
    assume "fst (findRefreshToken t ua s) = Some d"
    then show "d \<in> set (docs s)" "IRefreshToken.refreshToken d = t" "userAgent d = ua"
      using a [of s] by simp_all
  next
    assume "fst (findRefreshToken t ua (ttl_pass now s)) = Some d"
    then have "d \<in> set (docs (ttl_pass now s))" using a by blast
    then show "\<not> expired now d" by (simp add: ttl_pass_def)
  qed
qed

theorem findRefreshToken_matches_and_expiry_by_ttl_pass_witness:
  "fst (findRefreshToken (Raw ''t1'') ''Jest''
          (snd (createRefreshToken (example_record ''66f0'' ''t1'' ''Jest'' 1000) 0 (example_db []))))
     = Some (IRefreshToken.extend (example_record ''66f0'' ''t1'' ''Jest'' 1000) \<lparr>createdAt = 0\<rparr>) \<and>
   userAgent (IRefreshToken.extend (example_record ''66f0'' ''t1'' ''Jest'' 1000) \<lparr>createdAt = 0\<rparr>) = ''Jest'' \<and>
   fst (findRefreshToken (Raw ''t1'') ''Jest''
          (ttl_pass 5000 (snd (createRefreshToken (example_record ''66f0'' ''t1'' ''Jest'' 1000) 0 (example_db [])))))
     = None"
proof -
  have f: "fst (findRefreshToken (Raw ''t1'') ''Jest''
          (snd (createRefreshToken (example_record ''66f0'' ''t1'' ''Jest'' 1000) 0 (example_db []))))
     = Some (IRefreshToken.extend (example_record ''66f0'' ''t1'' ''Jest'' 1000) \<lparr>createdAt = 0\<rparr>)"
    by code_simp
  have n: "fst (findRefreshToken (Raw ''t1'') ''Jest''
          (ttl_pass 5000 (snd (createRefreshToken (example_record ''66f0'' ''t1'' ''Jest'' 1000) 0 (example_db [])))))
     = None"
    by code_simp
  show ?thesis
    using f n findRefreshToken_matches_and_expiry_by_ttl_pass
      [of "Raw ''t1''" "''Jest''"
          "snd (createRefreshToken (example_record ''66f0'' ''t1'' ''Jest'' 1000) 0 (example_db []))"
          "IRefreshToken.extend (example_record ''66f0'' ''t1'' ''Jest'' 1000) \<lparr>createdAt = 0\<rparr>" 5000]
    by simp
qed

subsection \<open>A login that no driver call fails\<close>

lemma findByUserEmail_no_fault:
  "True \<notin> set (faults s) \<Longrightarrow> findByUserEmail e s = (res, s1) \<Longrightarrow>
   res = Inr (find (\<lambda>u. email u = e) (users s)) \<and> docs s1 = docs s \<and> True \<notin> set (faults s1)"
  by (auto simp: findByUserEmail_def Let_def split: prod.splits if_splits
      dest: driver_call_docs driver_call_no_fault)

lemma revoke_no_fault:
  "True \<notin> set (faults s) \<Longrightarrow> revokeUserRefreshTokensByUserAgent uid ua s = (b, s1) \<Longrightarrow>
   docs s1 = filter (\<lambda>d. \<not> (userId d = uid \<or> userAgent d = ua)) (docs s) \<and>
   True \<notin> set (faults s1)"
  by (auto simp: revokeUserRefreshTokensByUserAgent_def deleteMany_or_def Let_def
      split: prod.splits sum.splits if_splits dest: driver_call_docs driver_call_no_fault)

lemma create_no_fault:
  "True \<notin> set (faults s) \<Longrightarrow> validate r \<Longrightarrow> userAgent r \<notin> set (map userAgent (docs s)) \<Longrightarrow>
   createRefreshToken r now s = (res, s1) \<Longrightarrow>
   docs s1 = docs s @ [IRefreshToken.extend r \<lparr>createdAt = now\<rparr>]"
  by (auto simp: createRefreshToken_def save_def Let_def
      split: prod.splits sum.splits if_splits dest: driver_call_docs driver_call_no_fault)

lemma login_Json:
  assumes "login cfg cmp now req s = (Json c r, s3)"
  shows "\<exists>u s1 s2 b created n m.
           findByUserEmail (body_email req) s = (Inr (Some u), s1) \<and>
           header_user_agent req \<noteq> [] \<and> c = 201 \<and>
           EXPIRES_IN cfg = Integer m \<and>
           REFRESH_TOKEN_EXPIRES_IN cfg = Integer n \<and>
           REFRESH_TOKEN_SECRET_KEY cfg \<noteq> [] \<and>
           access_token r = Signed \<lparr>IPayload.id' = IUser.id' u, full_name = IUser.full_name u,
               role = IUser.role u, permissions = IUser.permissions u,
               iat = now div 1000, exp = now div 1000 + m\<rparr> (SECRET_KEY cfg) \<and>
           refresh_token r = Signed \<lparr>IPayload.id' = IUser.id' u, full_name = IUser.full_name u,
               role = IUser.role u, permissions = IUser.permissions u,
               iat = now div 1000, exp = now div 1000 + n\<rparr> (REFRESH_TOKEN_SECRET_KEY cfg) \<and>
           revokeUserRefreshTokensByUserAgent (IUser.id' u) (header_user_agent req) s1 = (b, s2) \<and>
           createRefreshToken \<lparr>userId = IUser.id' u, refreshToken = refresh_token r,
               expiresAt = new_Date (now + n), userAgent = header_user_agent req\<rparr> now s2
             = (created, s3)"
  using assms
  unfolding login_def Let_def generateAccessToken_def generateRefreshToken_def jwt_sign_def
  by (auto simp: IPayload.extend_def
      split: prod.splits sum.splits option.splits if_splits number.splits)

lemma login_no_fault:
  assumes l: "login cfg cmp now req s = (Json c r, s3)"
    and nf: "True \<notin> set (faults s)"
    and life: "REFRESH_TOKEN_EXPIRES_IN cfg = Integer n" "\<bar>now + n\<bar> \<le> 8640000000000000"
  shows "\<exists>u. find (\<lambda>u. email u = body_email req) (users s) = Some u \<and>
           header_user_agent req \<noteq> [] \<and>
           docs s3 =
             filter (\<lambda>d. \<not> (userId d = IUser.id' u \<or> userAgent d = header_user_agent req)) (docs s)
             @ [\<lparr>userId = IUser.id' u, refreshToken = refresh_token r,
                 expiresAt = Date (now + n), userAgent = header_user_agent req,
                 createdAt = now\<rparr>]"
proof -
  from login_Json [OF l] life(1) obtain u s1 s2 b created where
    f: "findByUserEmail (body_email req) s = (Inr (Some u), s1)"
    and ua: "header_user_agent req \<noteq> []"
    and tok: "refresh_token r \<noteq> Raw []"
    and rv: "revokeUserRefreshTokensByUserAgent (IUser.id' u) (header_user_agent req) s1 = (b, s2)"
    and cr: "createRefreshToken \<lparr>userId = IUser.id' u, refreshToken = refresh_token r,
               expiresAt = new_Date (now + n), userAgent = header_user_agent req\<rparr> now s2
             = (created, s3)"
    by fastforce
  from findByUserEmail_no_fault [OF nf f]
  have u: "find (\<lambda>u. email u = body_email req) (users s) = Some u"
    and d1: "docs s1 = docs s" and nf1: "True \<notin> set (faults s1)" by simp_all
  from revoke_no_fault [OF nf1 rv]
  have d2: "docs s2 = filter (\<lambda>d. \<not> (userId d = IUser.id' u \<or> userAgent d = header_user_agent req)) (docs s)"
    and nf2: "True \<notin> set (faults s2)" by (simp_all add: d1)
  have v: "validate \<lparr>userId = IUser.id' u, refreshToken = refresh_token r,
               expiresAt = new_Date (now + n), userAgent = header_user_agent req\<rparr>"
    using ua tok life(2) by (simp add: validate_def new_Date_def)
  have fresh: "userAgent \<lparr>userId = IUser.id' u, refreshToken = refresh_token r,
               expiresAt = new_Date (now + n), userAgent = header_user_agent req\<rparr>
        \<notin> set (map userAgent (docs s2))"
    by (auto simp: d2)
  from create_no_fault [OF nf2 v fresh cr]
  have "docs s3 = docs s2 @ [\<lparr>userId = IUser.id' u, refreshToken = refresh_token r,
                 expiresAt = Date (now + n), userAgent = header_user_agent req,
                 createdAt = now\<rparr>]"
    using life(2) by (simp add: IRefreshToken.extend_def new_Date_def)
  with u ua d2 show ?thesis by simp
qed


lemma login_tokens_differ_across_seconds:
  assumes "login cfg cmp t1 req s = (Json c1 r1, s1)"
    and "login cfg cmp t2 req' s' = (Json c2 r2, s2)"
    and "t1 div 1000 \<noteq> t2 div 1000"
  shows "refresh_token r1 \<noteq> refresh_token r2"
  using login_Json [OF assms(1)] login_Json [OF assms(2)] assms(3) by auto

text \<open>
  Claim C2, as stated: after a second login for the same user and client context, the
  first login's refresh token, presented to the refresh flow, is answered with the
  invalid-token error. It fails when both logins fall in the same clock second: the
  refresh token is a signature over the payload and the two stamps in whole seconds, so
  the second login issues the very string the first one did, the record stored for it
  matches, and the refresh answers 201 with a new access token.
\<close>

theorem first_token_still_accepted_after_second_login:
  "fst (refreshToken_route example_configuration 2000
          \<lparr>body_refresh_token =
             Signed \<lparr>IPayload.id' = ''66f0'', full_name = ''Test User'', role = ADMIN,
                      permissions = 1, iat = 1, exp = 604801\<rparr> ''refresh-secret'',
           refresh_user_agent = ''Jest'', user = example_principal\<rparr>
          (run example_configuration (=)
             [Login example_login 1000, Login example_login 1500] (example_db [])))
     = Json 201
         \<lparr>message = ''Created a access token'', status = ''success'',
          access_token =
            Signed \<lparr>IPayload.id' = ''66f0'', full_name = ''Test User'', role = ADMIN,
                     permissions = 1, iat = 2, exp = 902\<rparr> ''access-secret'',
          expires_in = Integer 900\<rparr> \<and>
   map_outcome refresh_token (fst (login example_configuration (=) 1000 example_login (example_db [])))
     = Json 201 (Signed \<lparr>IPayload.id' = ''66f0'', full_name = ''Test User'', role = ADMIN,
                      permissions = 1, iat = 1, exp = 604801\<rparr> ''refresh-secret'')"
  by code_simp

text \<open>
  Claim C2, amended. Take a login that answered 201 with a refresh token, and a later
  login for the same email and client context that answers 201 from any state of the
  database, with no rejecting driver call ahead, an expiry date within the range of
  dates, and a refresh token that differs from the first one (as it does when the two
  logins fall in different clock seconds, by \<open>login_tokens_differ_across_seconds\<close>).
  Then the database holds exactly one refresh record for that user and client context,
  and presenting the first token with that client context to the refresh handler, at
  any time and for any attached principal, ends in the error
  \<open>Invalid refresh token.\<close> with status 400.
\<close>

theorem second_login_leaves_one_record:
  assumes first: "login cfg cmp t1 req s0 = (Json c1 r1, s1)"
    and second: "login cfg cmp t2 req s = (Json c2 r2, s2)"
    and nofault: "True \<notin> set (faults s)"
    and life: "REFRESH_TOKEN_EXPIRES_IN cfg = Integer n" "\<bar>t2 + n\<bar> \<le> 8640000000000000"
    and differ: "refresh_token r1 \<noteq> refresh_token r2"
  shows "\<exists>u. find (\<lambda>u. email u = body_email req) (users s) = Some u \<and>
           length (filter (\<lambda>d. userId d = IUser.id' u \<and> userAgent d = header_user_agent req)
                     (docs s2)) = 1 \<and>
           (\<forall>t3 p. fst (refreshToken_route cfg t3
                          \<lparr>body_refresh_token = refresh_token r1,
                           refresh_user_agent = header_user_agent req, user = p\<rparr> s2)
                     = Next (BadRequestError ''Invalid refresh token.''))"
proof -
  from login_no_fault [OF second nofault life] obtain u where
    u: "find (\<lambda>u. email u = body_email req) (users s) = Some u"
    and ua: "header_user_agent req \<noteq> []"
    and d: "docs s2 =
             filter (\<lambda>d. \<not> (userId d = IUser.id' u \<or> userAgent d = header_user_agent req)) (docs s)
             @ [\<lparr>userId = IUser.id' u, refreshToken = refresh_token r2,
                 expiresAt = Date (t2 + n), userAgent = header_user_agent req,
                 createdAt = t2\<rparr>]"
    by blast
  have one: "length (filter (\<lambda>d. userId d = IUser.id' u \<and> userAgent d = header_user_agent req)
                     (docs s2)) = 1"
    by (simp add: d filter_empty_conv)
  have nomatch: "find (\<lambda>d. IRefreshToken.refreshToken d = refresh_token r1
                      \<and> userAgent d = header_user_agent req) (docs s2) = None"
    using differ by (auto simp: d find_None_iff)
  have lookup: "fst (findRefreshToken (refresh_token r1) (header_user_agent req) s2) = None"
    using nomatch
    by (auto simp: findRefreshToken_def findOne_def Let_def
        split: prod.splits sum.splits if_splits dest: driver_call_docs)
  have "fst (refreshToken_route cfg t3
               \<lparr>body_refresh_token = refresh_token r1,
                refresh_user_agent = header_user_agent req, user = p\<rparr> s2)
          = Next (BadRequestError ''Invalid refresh token.'')" for t3 p
    using login_Json [OF first] ua lookup
    by (auto simp: refreshToken_route_def split: option.splits prod.splits)
  with u one show ?thesis by blast
qed

theorem second_login_leaves_one_record_witness:
  "length (filter (\<lambda>d. userId d = ''66f0'' \<and> userAgent d = ''Jest'')
             (docs (run example_configuration (=)
                [Login example_login 1000, Login example_login 2500] (example_db [])))) = 1 \<and>
   fst (refreshToken_route example_configuration 3000
          \<lparr>body_refresh_token =
             Signed \<lparr>IPayload.id' = ''66f0'', full_name = ''Test User'', role = ADMIN,
                      permissions = 1, iat = 1, exp = 604801\<rparr> ''refresh-secret'',
           refresh_user_agent = ''Jest'', user = example_principal\<rparr>
          (run example_configuration (=)
             [Login example_login 1000, Login example_login 2500] (example_db [])))
     = Next (BadRequestError ''Invalid refresh token.'')"
proof -
  let ?L1 = "login example_configuration (=) 1000 example_login (example_db [])"
  let ?L2 = "login example_configuration (=) 2500 example_login (snd ?L1)"
  let ?a = "\<lambda>i e. Signed \<lparr>IPayload.id' = ''66f0'', full_name = ''Test User'', role = ADMIN,
                      permissions = 1, iat = i, exp = e\<rparr> ''access-secret''"
  let ?t = "\<lambda>i e. Signed \<lparr>IPayload.id' = ''66f0'', full_name = ''Test User'', role = ADMIN,
                      permissions = 1, iat = i, exp = e\<rparr> ''refresh-secret''"
  let ?R = "\<lambda>i. \<lparr>message = ''Login successful'', status = ''success'',
              access_token = ?a i (i + 900), expires_in = Integer 900,
              refresh_token = ?t i (i + 604800)\<rparr>"
  have f1: "fst ?L1 = Json 201 (?R 1)" by code_simp
  have f2: "fst ?L2 = Json 201 (?R 2)" by code_simp
  have first: "?L1 = (Json 201 (?R 1), snd ?L1)" using f1 by (simp add: prod_eq_iff)
  have second: "?L2 = (Json 201 (?R 2), snd ?L2)" using f2 by (simp add: prod_eq_iff)
  have nofault: "True \<notin> set (faults (snd ?L1))" by code_simp
  have life: "REFRESH_TOKEN_EXPIRES_IN example_configuration = Integer 604800"
    "\<bar>2500 + 604800\<bar> \<le> (8640000000000000::int)"
    by (simp_all add: example_configuration_def)
  have differ: "refresh_token (?R 1) \<noteq> refresh_token (?R 2)" by simp
  have us: "find (\<lambda>u. email u = body_email example_login) (users (snd ?L1)) = Some example_user"
    by code_simp
  have r: "run example_configuration (=)
             [Login example_login 1000, Login example_login 2500] (example_db []) = snd ?L2"
    by (simp add: run_def)
  show ?thesis
    unfolding r
    using second_login_leaves_one_record [OF first second nofault life differ] us
    by (simp add: example_user_def example_login_def)
qed

text \<open>
  Claim C5, as stated: the capability bitfield in the payload of a login is
  calculatePermissions of the user's role. It fails for a stored user whose role is
  admin and whose \<open>permissions\<close> field has the schema's default 1: the access token
  carries 1, and calculatePermissions of admin is 7.
\<close>

theorem login_payload_permissions_not_computed_from_role:
  "map_outcome access_token
     (fst (login example_configuration (=) 1000 example_login (example_db [])))
   = Json 201 (Signed \<lparr>IPayload.id' = ''66f0'', full_name = ''Test User'', role = ADMIN,
                         permissions = 1, iat = 1, exp = 901\<rparr> ''access-secret'') \<and>
   calculatePermissions ADMIN = 7"
  by code_simp

text \<open>
  Claim C5, amended. For every login that answers with tokens, the capability bitfield
  in the payload of both tokens is the \<open>permissions\<close> field stored in the user record
  found by email, copied unchanged, beside that record's role; login does not call
  calculatePermissions, so the bitfield is the Permission Model's value for the role
  exactly when the stored field is.
\<close>

theorem login_payload_permissions_are_stored_permissions:
  assumes "login cfg cmp now req s = (Json c r, s')"
  shows "\<exists>u a b ka kb.
           find (\<lambda>u. email u = body_email req) (users s) = Some u \<and>
           access_token r = Signed a ka \<and> refresh_token r = Signed b kb \<and>
           IPayload.permissions a = IUser.permissions u \<and>
           IPayload.permissions b = IUser.permissions u \<and>
           IPayload.role a = IUser.role u \<and> IPayload.role b = IUser.role u \<and>
           (IPayload.permissions a = calculatePermissions (IPayload.role a)
              \<longleftrightarrow> IUser.permissions u = calculatePermissions (IUser.role u))"
proof -
  from login_Json [OF assms] obtain u s1 a b ka kb where
    f: "findByUserEmail (body_email req) s = (Inr (Some u), s1)"
    and t: "access_token r = Signed a ka" "refresh_token r = Signed b kb"
      "IPayload.permissions a = IUser.permissions u" "IPayload.permissions b = IUser.permissions u"
      "IPayload.role a = IUser.role u" "IPayload.role b = IUser.role u"
    by fastforce
  from f have "find (\<lambda>u. email u = body_email req) (users s) = Some u"
    by (auto simp: findByUserEmail_def Let_def split: prod.splits if_splits
        dest: driver_call_docs)
  with t show ?thesis by simp
qed

theorem login_payload_permissions_are_stored_permissions_witness:
  "\<exists>r a ka.
     fst (login example_configuration (=) 1000 example_login
            (example_db []\<lparr>users := [example_user\<lparr>permissions := 7\<rparr>]\<rparr>)) = Json 201 r \<and>
     access_token r = Signed a ka \<and>
     IPayload.permissions a = 7 \<and>
     IPayload.permissions a = calculatePermissions (IPayload.role a)"
proof -
  let ?s = "example_db []\<lparr>users := [example_user\<lparr>permissions := 7\<rparr>]\<rparr>"
  let ?L = "login example_configuration (=) 1000 example_login ?s"
  let ?R = "\<lparr>message = ''Login successful'', status = ''success'',
             access_token =
               Signed \<lparr>IPayload.id' = ''66f0'', full_name = ''Test User'', role = ADMIN,
                        permissions = 7, iat = 1, exp = 901\<rparr> ''access-secret'',
             expires_in = Integer 900,
             refresh_token =
               Signed \<lparr>IPayload.id' = ''66f0'', full_name = ''Test User'', role = ADMIN,
                        permissions = 7, iat = 1, exp = 604801\<rparr> ''refresh-secret''\<rparr>"
  have f: "fst ?L = Json 201 ?R"
    by code_simp
  then have l: "?L = (Json 201 ?R, snd ?L)" by (simp add: prod_eq_iff)
  have us: "find (\<lambda>u. email u = body_email example_login) (users ?s)
              = Some (example_user\<lparr>permissions := 7\<rparr>)"
    by code_simp
  have cp: "calculatePermissions ADMIN = 7" by code_simp
  show ?thesis
    using login_payload_permissions_are_stored_permissions [OF l] us f cp
    by (auto simp: example_user_def)
qed

text \<open>
  Claim C6, as stated: the revocation returns the number of records revoked. It
  returns a boolean: on a store where it deletes one record and on a store where it
  deletes two, the answer is the same \<open>True\<close>.
\<close>

theorem revoke_answers_true_for_one_and_for_two_records:
  "fst (revokeUserRefreshTokensByUserAgent ''66f0'' ''Jest'' one_session)
     = fst (revokeUserRefreshTokensByUserAgent ''66f0'' ''Jest'' two_sessions) \<and>
   length (docs one_session)
     - length (docs (snd (revokeUserRefreshTokensByUserAgent ''66f0'' ''Jest'' one_session))) = 1 \<and>
   length (docs two_sessions)
     - length (docs (snd (revokeUserRefreshTokensByUserAgent ''66f0'' ''Jest'' two_sessions))) = 2"
  by code_simp

text \<open>
  Claim C6, amended. For every user id and client context, when the driver call
  succeeds, revokeUserRefreshTokensByUserAgent deletes exactly the records whose owner
  is the user or whose client context is the given one, and keeps the others in their
  order; it returns true when at least one record was deleted and false otherwise.
  When the driver call rejects it deletes nothing and returns false.
\<close>

theorem revoke_deletes_matching_and_answers_whether_any:
  "docs (snd (revokeUserRefreshTokensByUserAgent uid ua s)) =
     (if fst (driver_call s) then docs s
      else filter (\<lambda>d. \<not> (userId d = uid \<or> userAgent d = ua)) (docs s)) \<and>
   fst (revokeUserRefreshTokensByUserAgent uid ua s) =
     (\<not> fst (driver_call s) \<and>
      0 < length (filter (\<lambda>d. userId d = uid \<or> userAgent d = ua) (docs s)))"
  by (auto simp: revokeUserRefreshTokensByUserAgent_def deleteMany_or_def Let_def
      split: prod.splits sum.splits if_splits dest: driver_call_docs)

theorem revoke_deletes_matching_and_answers_whether_any_witness:
  "docs (snd (revokeUserRefreshTokensByUserAgent ''66f0'' ''Jest'' two_sessions)) = [] \<and>
   fst (revokeUserRefreshTokensByUserAgent ''66f0'' ''Jest'' two_sessions) = True \<and>
   docs (snd (revokeUserRefreshTokensByUserAgent ''66f0'' ''Jest'' (two_sessions\<lparr>faults := [True]\<rparr>)))
     = docs two_sessions \<and>
   fst (revokeUserRefreshTokensByUserAgent ''66f0'' ''Jest'' (two_sessions\<lparr>faults := [True]\<rparr>)) = False"
proof -
  have a: "fst (driver_call two_sessions) = False" by code_simp
  have b: "fst (driver_call (two_sessions\<lparr>faults := [True]\<rparr>)) = True" by code_simp
  have c: "filter (\<lambda>d. \<not> (userId d = ''66f0'' \<or> userAgent d = ''Jest'')) (docs two_sessions) = []"
    by code_simp
  have d: "0 < length (filter (\<lambda>d. userId d = ''66f0'' \<or> userAgent d = ''Jest'') (docs two_sessions))"
    by code_simp
  show ?thesis
    using revoke_deletes_matching_and_answers_whether_any [of "''66f0''" "''Jest''" two_sessions]
      revoke_deletes_matching_and_answers_whether_any
        [of "''66f0''" "''Jest''" "two_sessions\<lparr>faults := [True]\<rparr>"]
      a b c d
    by simp
qed

text \<open>
  Claim C1 says that a login whose revoke step or create step fails answers with a
  server fault instead of the minted tokens. The handler awaits both steps and drops
  what they return. Evaluated where both driver calls reject (the user lookup
  succeeds, the deletion and the insertion fail): the revocation returns false, the
  creation returns null, and login answers 201 with the access token and the refresh
  token while no refresh record is stored.
\<close>

theorem login_answers_201_when_revoke_and_create_fail:
  "fst (revokeUserRefreshTokensByUserAgent ''66f0'' ''Jest'' (example_db [True, True])) = False \<and>
   fst (createRefreshToken
          \<lparr>userId = ''66f0'',
           refreshToken =
             Signed \<lparr>IPayload.id' = ''66f0'', full_name = ''Test User'', role = ADMIN,
                      permissions = 1, iat = 1, exp = 604801\<rparr> ''refresh-secret'',
           expiresAt = Date 605800, userAgent = ''Jest''\<rparr> 1000 (example_db [True])) = None \<and>
   login example_configuration (=) 1000 example_login (example_db [False, True, True]) =
     (Json 201
        \<lparr>message = ''Login successful'', status = ''success'',
         access_token =
           Signed \<lparr>IPayload.id' = ''66f0'', full_name = ''Test User'', role = ADMIN,
                    permissions = 1, iat = 1, exp = 901\<rparr> ''access-secret'',
         expires_in = Integer 900,
         refresh_token =
           Signed \<lparr>IPayload.id' = ''66f0'', full_name = ''Test User'', role = ADMIN,
                    permissions = 1, iat = 1, exp = 604801\<rparr> ''refresh-secret''\<rparr>,
      example_db [])"
  by code_simp

text \<open>
  Claim C4 says that the stored expiry is the creation time plus the configured
  lifetime taken in seconds. Evaluated for a login at 1700000000000 ms with a lifetime
  of 604800 (a week in seconds): the refresh token's \<open>exp\<close> is 604800 seconds after
  its \<open>iat\<close>, while the stored record's \<open>expiresAt\<close> is 604800 milliseconds, about ten
  minutes, after \<open>createdAt\<close>: the handler adds the number of seconds to \<open>Date.now()\<close>
  without scaling it. (For every login without a failing driver call,
  \<open>login_no_fault\<close> gives the same shape: \<open>expiresAt = Date (now + n)\<close> beside
  \<open>createdAt = now\<close>.)
\<close>

theorem login_expiresAt_adds_lifetime_to_milliseconds:
  "map (\<lambda>d. (createdAt d, expiresAt d, IRefreshToken.refreshToken d))
     (docs (snd (login example_configuration (=) 1700000000000 example_login (example_db []))))
   = [(1700000000000, Date (1700000000000 + 604800),
       Signed \<lparr>IPayload.id' = ''66f0'', full_name = ''Test User'', role = ADMIN,
                permissions = 1, iat = 1700000000, exp = 1700000000 + 604800\<rparr>
         ''refresh-secret'')] \<and>
   Date (1700000000000 + 604800) \<noteq> Date (1700000000000 + 604800 * 1000)"
  by code_simp

end
